theory Spec2Isabelle
  imports Complex_Main
begin

section \<open>Data model of \<open>src/app.py\<close>\<close>

text \<open>
  The program works on pandas DataFrames loaded from parquet files. A DataFrame is an
  ordered collection of named columns of one common length. A numeric column holds
  floating-point cells, where a missing cell is \<open>NaN\<close>; the column that
  \<open>pd.cut\<close> produces is categorical and holds labels, a missing cell again being
  absent. Floating-point cells are modelled as exact reals and \<open>NaN\<close> as
  \<open>None\<close>: rounding and overflow are outside this model. Every exception the
  code can raise is a value of \<open>error\<close>.
\<close>

datatype error = KeyError string | TypeError | NotModelled

datatype column = Numeric "real option list" | Categorical "string option list"

type_synonym dataframe = "(string \<times> column) list"

text \<open>\<open>df.columns\<close>\<close>

definition columns :: "dataframe \<Rightarrow> string list" where
  "columns df = map fst df"

text \<open>\<open>df[name]\<close>: raises \<open>KeyError\<close> on an absent column.\<close>

definition getitem :: "dataframe \<Rightarrow> string \<Rightarrow> error + column" where
  "getitem df name = (case map_of df name of None \<Rightarrow> Inl (KeyError name) | Some c \<Rightarrow> Inr c)"

text \<open>
  \<open>df[name] = col\<close>: an existing column is replaced where it stands, a new one is
  appended.
\<close>

definition setitem :: "dataframe \<Rightarrow> string \<Rightarrow> column \<Rightarrow> dataframe" where
  "setitem df name col =
     (if name \<in> set (columns df)
      then map (\<lambda>(k, c). if k = name then (k, col) else (k, c)) df
      else df @ [(name, col)])"

subsection \<open>Series operations\<close>

text \<open>
  \<open>series == v\<close>: a \<open>NaN\<close> cell compares unequal; a categorical column compared
  with a number that is not one of its categories is \<open>False\<close> everywhere.
\<close>

fun eq_mask :: "column \<Rightarrow> real \<Rightarrow> bool list" where
  "eq_mask (Numeric vs) x = map (\<lambda>v. v = Some x) vs"
| "eq_mask (Categorical gs) x = map (\<lambda>_. False) gs"

text \<open>
  \<open>series.between(lo, hi)\<close>, both ends inclusive; \<open>NaN\<close> is not between anything.
  Ordering a categorical column against a number raises \<open>TypeError\<close>.
\<close>

definition in_range :: "real \<Rightarrow> real \<Rightarrow> real option \<Rightarrow> bool" where
  "in_range lo hi v = (case v of None \<Rightarrow> False | Some x \<Rightarrow> lo \<le> x \<and> x \<le> hi)"

fun between :: "column \<Rightarrow> real \<Rightarrow> real \<Rightarrow> error + bool list" where
  "between (Numeric vs) lo hi = Inr (map (in_range lo hi) vs)"
| "between (Categorical gs) lo hi = Inl TypeError"

text \<open>\<open>df.loc[mask, name]\<close> on the cells of one column: the rows where the mask holds.\<close>

definition select :: "bool list \<Rightarrow> 'a list \<Rightarrow> 'a list" where
  "select msk xs = map snd (filter fst (zip msk xs))"

fun loc :: "bool list \<Rightarrow> column \<Rightarrow> column" where
  "loc msk (Numeric vs) = Numeric (select msk vs)"
| "loc msk (Categorical gs) = Categorical (select msk gs)"

text \<open>
  \<open>series.sum()\<close> skips \<open>NaN\<close> (\<open>skipna=True\<close>), the empty sum is 0; a
  categorical column does not support the reduction.
\<close>

definition cell :: "real option \<Rightarrow> real" where
  "cell v = (case v of None \<Rightarrow> 0 | Some x \<Rightarrow> x)"

definition nansum :: "real option list \<Rightarrow> real" where
  "nansum vs = sum_list (map cell vs)"

fun series_sum :: "column \<Rightarrow> error + real" where
  "series_sum (Numeric vs) = Inr (nansum vs)"
| "series_sum (Categorical gs) = Inl TypeError"

text \<open>\<open>a * b\<close> on two cells: \<open>NaN\<close> if either is.\<close>

fun cell_mul :: "real option \<Rightarrow> real option \<Rightarrow> real option" where
  "cell_mul (Some a) (Some b) = Some (a * b)"
| "cell_mul _ _ = None"

fun series_mul :: "column \<Rightarrow> column \<Rightarrow> error + column" where
  "series_mul (Numeric vs) (Numeric ws) = Inr (Numeric (map (\<lambda>(v, w). cell_mul v w) (zip vs ws)))"
| "series_mul _ _ = Inl TypeError"

section \<open>Weighted aggregation\<close>

text \<open>\<open>df.loc[df[var] == valor, "WEIGHT"].sum()\<close>\<close>

definition yes_weight :: "dataframe \<Rightarrow> string \<Rightarrow> int \<Rightarrow> error + real" where
  "yes_weight df var valor =
     (case getitem df var of
        Inl e \<Rightarrow> Inl e
      | Inr c \<Rightarrow>
          (case getitem df ''WEIGHT'' of
             Inl e \<Rightarrow> Inl e
           | Inr w \<Rightarrow> series_sum (loc (eq_mask c (real_of_int valor)) w)))"

text \<open>\<open>df["WEIGHT"].sum()\<close>\<close>

definition total_weight :: "dataframe \<Rightarrow> error + real" where
  "total_weight df =
     (case getitem df ''WEIGHT'' of Inl e \<Rightarrow> Inl e | Inr w \<Rightarrow> series_sum w)"

text \<open>
  \<open>porcentaje_ponderado(df, var, valor_si)\<close>: 0.0 for an absent variable, otherwise
  \<open>100 * yes_weight / total_weight if total_weight else 0.0\<close>.
\<close>

definition porcentaje_ponderado :: "dataframe \<Rightarrow> string \<Rightarrow> int \<Rightarrow> error + real" where
  "porcentaje_ponderado df var valor_si =
     (if var \<notin> set (columns df) then Inr 0
      else
        (case yes_weight df var valor_si of
           Inl e \<Rightarrow> Inl e
         | Inr yw \<Rightarrow>
             (case total_weight df of
                Inl e \<Rightarrow> Inl e
              | Inr tw \<Rightarrow> Inr (if tw \<noteq> 0 then 100 * yw / tw else 0))))"

text \<open>
  \<open>weighted_mean(df, var)\<close>: 0.0 for an absent variable; otherwise the mask of the
  values between 1 and 5, the weight \<open>w\<close> of the masked rows, 0.0 if \<open>w == 0\<close>, and
  else the sum of value times weight over the masked rows, divided by \<open>w\<close>.
\<close>

definition weighted_mean :: "dataframe \<Rightarrow> string \<Rightarrow> error + real" where
  "weighted_mean df var =
     (if var \<notin> set (columns df) then Inr 0
      else
        (case getitem df var of
           Inl e \<Rightarrow> Inl e
         | Inr c \<Rightarrow>
             (case between c 1 5 of
                Inl e \<Rightarrow> Inl e
              | Inr msk \<Rightarrow>
                  (case getitem df ''WEIGHT'' of
                     Inl e \<Rightarrow> Inl e
                   | Inr wc \<Rightarrow>
                       (case series_sum (loc msk wc) of
                          Inl e \<Rightarrow> Inl e
                        | Inr w \<Rightarrow>
                            if w = 0 then Inr 0
                            else
                              (case series_mul (loc msk c) (loc msk wc) of
                                 Inl e \<Rightarrow> Inl e
                               | Inr vw \<Rightarrow>
                                   (case series_sum vw of
                                      Inl e \<Rightarrow> Inl e
                                    | Inr s \<Rightarrow> Inr (s / w))))))))"

subsection \<open>Weighted category distribution\<close>

text \<open>
  The result of a float division in pandas: dividing by zero does not raise, it gives
  \<open>NaN\<close> for \<open>0 / 0\<close> and an infinity otherwise.
\<close>

datatype pyfloat = Finite real | PosInf | NegInf | NaN

definition fdiv :: "real \<Rightarrow> real \<Rightarrow> pyfloat" where
  "fdiv a b =
     (if b \<noteq> 0 then Finite (a / b)
      else if a = 0 then NaN
      else if 0 < a then PosInf
      else NegInf)"

fun times100 :: "pyfloat \<Rightarrow> pyfloat" where
  "times100 (Finite x) = Finite (x * 100)"
| "times100 PosInf = PosInf"
| "times100 NegInf = NegInf"
| "times100 NaN = NaN"

text \<open>
  The keys of \<open>df.groupby(var)\<close>: the distinct values of the column in ascending
  order; rows whose key is \<open>NaN\<close> belong to no group (\<open>dropna=True\<close>).
\<close>

definition present_codes :: "real option list \<Rightarrow> real list" where
  "present_codes ks = sort (remdups (concat (map (\<lambda>k. case k of None \<Rightarrow> [] | Some x \<Rightarrow> [x]) ks)))"

text \<open>
  \<open>df.groupby(var)["WEIGHT"].sum()\<close>: one row per key with the weight of its rows.
  Grouping by a categorical key depends on the pandas version (\<open>observed\<close>) and is
  not modelled.
\<close>

definition groupby_weight_sum :: "dataframe \<Rightarrow> string \<Rightarrow> error + (real \<times> real) list" where
  "groupby_weight_sum df var =
     (case getitem df var of
        Inl e \<Rightarrow> Inl e
      | Inr (Categorical gs) \<Rightarrow> Inl NotModelled
      | Inr (Numeric ks) \<Rightarrow>
          (case getitem df ''WEIGHT'' of
             Inl e \<Rightarrow> Inl e
           | Inr (Categorical gs) \<Rightarrow> Inl TypeError
           | Inr (Numeric ws) \<Rightarrow>
               Inr (map (\<lambda>k. (k, nansum (select (map (\<lambda>v. v = Some k) ks) ws)))
                      (present_codes ks))))"

text \<open>
  \<open>plot_weighted_bar(df, var, labels)\<close>, up to the table \<open>perc_df\<close> that is
  plotted: \<open>total = weights.sum()\<close>, \<open>weights / total * 100\<close>, and the key
  column mapped through \<open>labels\<close> (a code without a label becomes \<open>NaN\<close>, here
  \<open>None\<close>).
\<close>

definition plot_weighted_bar ::
  "dataframe \<Rightarrow> string \<Rightarrow> (real \<rightharpoonup> string) \<Rightarrow> error + (string option \<times> pyfloat) list" where
  "plot_weighted_bar df var labels =
     (case groupby_weight_sum df var of
        Inl e \<Rightarrow> Inl e
      | Inr weights \<Rightarrow>
          (let tot = sum_list (map snd weights)
           in Inr (map (\<lambda>(k, w). (labels k, times100 (fdiv w tot))) weights)))"

subsection \<open>Grouped indicators\<close>

text \<open>
  \<open>sum(df.loc[df[code] == 1, "WEIGHT"].sum() for code in codes if code in df.columns)\<close>
\<close>

fun codes_weight :: "dataframe \<Rightarrow> string list \<Rightarrow> error + real" where
  "codes_weight df [] = Inr 0"
| "codes_weight df (code # codes) =
     (if code \<in> set (columns df)
      then
        (case yes_weight df code 1 of
           Inl e \<Rightarrow> Inl e
         | Inr x \<Rightarrow>
             (case codes_weight df codes of
                Inl e \<Rightarrow> Inl e
              | Inr y \<Rightarrow> Inr (x + y)))
      else codes_weight df codes)"

text \<open>The loop over \<open>group_map.items()\<close>, in the order of the dictionary.\<close>

fun grouped_rows ::
  "dataframe \<Rightarrow> real \<Rightarrow> (string \<times> string list) list \<Rightarrow> error + (string \<times> real) list" where
  "grouped_rows df tot [] = Inr []"
| "grouped_rows df tot ((cat, codes) # rest) =
     (case codes_weight df codes of
        Inl e \<Rightarrow> Inl e
      | Inr w \<Rightarrow>
          (case grouped_rows df tot rest of
             Inl e \<Rightarrow> Inl e
           | Inr rows \<Rightarrow> Inr ((cat, if tot \<noteq> 0 then 100 * w / tot else 0) # rows)))"

text \<open>\<open>plot_grouped_reasons(df, group_map)\<close>, up to the table that is plotted.\<close>

definition plot_grouped_reasons ::
  "dataframe \<Rightarrow> (string \<times> string list) list \<Rightarrow> error + (string \<times> real) list" where
  "plot_grouped_reasons df group_map =
     (case total_weight df of
        Inl e \<Rightarrow> Inl e
      | Inr tot \<Rightarrow> grouped_rows df tot group_map)"

section \<open>Derived ideology variables\<close>

text \<open>
  \<open>pd.cut(series, bins, labels)\<close> with the default \<open>right=True\<close>: the intervals
  are open on the left and closed on the right, a value in none of them (and
  \<open>NaN\<close>) gets no label.
\<close>

fun cut_bins :: "real list \<Rightarrow> string list \<Rightarrow> real \<Rightarrow> string option" where
  "cut_bins (lo # hi # bs) (l # ls) x =
     (if lo < x \<and> x \<le> hi then Some l else cut_bins (hi # bs) ls x)"
| "cut_bins _ _ _ = None"

definition cut_cell :: "real list \<Rightarrow> string list \<Rightarrow> real option \<Rightarrow> string option" where
  "cut_cell bins labels v = (case v of None \<Rightarrow> None | Some x \<Rightarrow> cut_bins bins labels x)"

fun pd_cut :: "column \<Rightarrow> real list \<Rightarrow> string list \<Rightarrow> error + column" where
  "pd_cut (Numeric vs) bins labels = Inr (Categorical (map (cut_cell bins labels) vs))"
| "pd_cut (Categorical gs) bins labels = Inl TypeError"

text \<open>\<open>series.where(mask)\<close>: the cells where the mask is false become \<open>NaN\<close>.\<close>

fun series_where :: "column \<Rightarrow> bool list \<Rightarrow> column" where
  "series_where (Numeric vs) msk = Numeric (map (\<lambda>(v, m). if m then v else None) (zip vs msk))"
| "series_where (Categorical gs) msk =
     Categorical (map (\<lambda>(g, m). if m then g else None) (zip gs msk))"

text \<open>
  DataFrames are mutable objects that the program holds by reference. The heap maps
  references to tables; \<open>nxt\<close> is the next free reference, and the references below
  it are the allocated ones.
\<close>

record heap =
  objs :: "nat \<Rightarrow> dataframe"
  nxt :: nat

text \<open>\<open>df.copy()\<close>: a new object with the same contents.\<close>

definition copy_df :: "heap \<Rightarrow> nat \<Rightarrow> heap \<times> nat" where
  "copy_df h r = (h\<lparr>objs := (objs h)(nxt h := objs h r), nxt := Suc (nxt h)\<rparr>, nxt h)"

text \<open>\<open>df[name] = col\<close> on the object a reference points to.\<close>

definition setitem_at :: "heap \<Rightarrow> nat \<Rightarrow> string \<Rightarrow> column \<Rightarrow> heap" where
  "setitem_at h r name col = h\<lparr>objs := (objs h)(r := setitem (objs h r) name col)\<rparr>"

text \<open>
  \<open>engineer_ideology(df)\<close>. The local name \<open>df\<close> is rebound to the copy, and every
  later statement reads and writes that copy. The statement
  \<open>w = df.loc[mask, "WEIGHT"]\<close> has no use but raises \<open>KeyError\<close> on a table
  without weights.
\<close>

definition engineer_ideology :: "heap \<Rightarrow> nat \<Rightarrow> heap \<times> (error + nat)" where
  "engineer_ideology h r =
     (case copy_df h r of
        (h1, d) \<Rightarrow>
          if ''P5328'' \<in> set (columns (objs h1 d))
          then
            (case getitem (objs h1 d) ''P5328'' of
               Inl e \<Rightarrow> (h1, Inl e)
             | Inr p \<Rightarrow>
                 (case pd_cut p [0, 3.5, 6.5, 10] [''Izquierda'', ''Centro'', ''Derecha''] of
                    Inl e \<Rightarrow> (h1, Inl e)
                  | Inr g \<Rightarrow>
                      (let h2 = setitem_at h1 d ''ideology_group'' g
                       in case getitem (objs h2 d) ''P5328'' of
                            Inl e \<Rightarrow> (h2, Inl e)
                          | Inr p2 \<Rightarrow>
                              (case between p2 1 10 of
                                 Inl e \<Rightarrow> (h2, Inl e)
                               | Inr msk \<Rightarrow>
                                   (case getitem (objs h2 d) ''WEIGHT'' of
                                      Inl e \<Rightarrow> (h2, Inl e)
                                    | Inr w \<Rightarrow>
                                        (case getitem (objs h2 d) ''P5328'' of
                                           Inl e \<Rightarrow> (h2, Inl e)
                                         | Inr p3 \<Rightarrow>
                                             (setitem_at h2 d ''ideology_score''
                                                (series_where p3 msk),
                                              Inr d)))))))
          else (h1, Inr d))"

section \<open>The specification's own terms\<close>






section \<open>Closed forms of what the code computes\<close>

text \<open>The label that \<open>engineer_ideology\<close> gives to one placement cell.\<close>

abbreviation ideology_group_of :: "real option \<Rightarrow> string option" where
  "ideology_group_of \<equiv> cut_cell [0, 3.5, 6.5, 10] [''Izquierda'', ''Centro'', ''Derecha'']"

text \<open>The cleaned score of one placement cell: the cell itself between 1 and 10, else missing.\<close>

definition ideology_score_of :: "real option \<Rightarrow> real option" where
  "ideology_score_of v = (if in_range 1 10 v then v else None)"


section \<open>Tables of the scenarios\<close>

text \<open>The participation scenario of the specification.\<close>

definition scenario_table :: dataframe where
  "scenario_table =
     [(''WEIGHT'', Numeric [Some 2, Some 3, Some 5]),
      (''P6933'', Numeric [Some 1, Some 2, Some 99])]"


text \<open>
  The labels of the participation question, \<open>global_participacion\<close> in the source
  (its accented letters are written without the accent here).
\<close>

definition global_participacion :: "real \<rightharpoonup> string" where
  "global_participacion = map_of [(1, ''Si voto''), (2, ''No voto''), (99, ''NS/NR'')]"

text \<open>Two records, both of weight 0.\<close>

definition zero_weight_table :: dataframe where
  "zero_weight_table =
     [(''WEIGHT'', Numeric [Some 0, Some 0]),
      (''P6933'', Numeric [Some 1, Some 2])]"



text \<open>The placements of the specification's scenario, each with weight 1.\<close>

definition placement_table :: dataframe where
  "placement_table =
     [(''WEIGHT'', Numeric [Some 1, Some 1, Some 1, Some 1, Some 1, Some 1]),
      (''P5328'', Numeric [Some 3.5, Some 3.5001, Some 6.5, Some 7, Some 11, None])]"

text \<open>One record placed exactly on the first inner bin edge.\<close>

definition boundary_table :: dataframe where
  "boundary_table = [(''WEIGHT'', Numeric [Some 1]), (''P5328'', Numeric [Some 3.5])]"

text \<open>One record placed below 1 but above the lowest bin edge.\<close>

definition fraction_table :: dataframe where
  "fraction_table = [(''WEIGHT'', Numeric [Some 1]), (''P5328'', Numeric [Some 0.5])]"

text \<open>A heap whose only allocated object, at reference 0, is the given table.\<close>

definition heap_of :: "dataframe \<Rightarrow> heap" where
  "heap_of df = \<lparr>objs = (\<lambda>_. df), nxt = 1\<rparr>"

text \<open>
  \<open>engineer_ideology\<close> run on a heap that holds just the given table: the table it
  returns, or the error it raises.
\<close>

definition derive_from :: "dataframe \<Rightarrow> error + dataframe" where
  "derive_from df =
     (case engineer_ideology (heap_of df) 0 of
        (h', Inl e) \<Rightarrow> Inl e
      | (h', Inr r') \<Rightarrow> Inr (objs h' r'))"

section \<open>Properties\<close>

subsection \<open>Columns and masks\<close>


lemma in_columns: "map_of df name = Some c \<Longrightarrow> name \<in> set (columns df)"
  by (auto simp: columns_def dest: map_of_SomeD intro: rev_image_eqI)








subsection \<open>Absent variables\<close>

text \<open>
  C8. For every table and every variable that is not among the table's columns, the
  weighted percentage and the weighted mean both return exactly 0.0 and raise nothing
  (also on a table that has no \<open>WEIGHT\<close> column).
\<close>

theorem absent_variable_zero:
  "var \<notin> set (columns df) \<Longrightarrow>
     porcentaje_ponderado df var valor_si = Inr 0 \<and> weighted_mean df var = Inr 0"
  by (simp add: porcentaje_ponderado_def weighted_mean_def)

theorem absent_variable_zero_witness:
  "''P5336S1'' \<notin> set (columns scenario_table) \<and>
   porcentaje_ponderado scenario_table ''P5336S1'' 1 = Inr 0 \<and>
   weighted_mean scenario_table ''P5336S1'' = Inr 0"
proof -
  have absent: "''P5336S1'' \<notin> set (columns scenario_table)"
    by (simp add: columns_def scenario_table_def)
  from absent absent_variable_zero[OF absent, of 1] show ?thesis by simp
qed

subsection \<open>Weighted percentage\<close>




subsection \<open>Weighted mean\<close>








subsection \<open>Column assignment\<close>

lemma map_of_replace_other:
  "k \<noteq> n \<Longrightarrow>
     map_of (map (\<lambda>(k, c'). if k = n then (k, c) else (k, c')) df) k = map_of df k"
  by (induction df) auto

lemma map_of_replace_same:
  "n \<in> fst ` set df \<Longrightarrow>
     map_of (map (\<lambda>(k, c'). if k = n then (k, c) else (k, c')) df) n = Some c"
  by (induction df) auto

lemma map_of_setitem:
  "map_of (setitem df n c) k = (if k = n then Some c else map_of df k)"
proof (cases "n \<in> set (columns df)")
  case True
  then show ?thesis
    by (simp add: setitem_def columns_def map_of_replace_other map_of_replace_same)
next
  case False
  then have "map_of df n = None" by (simp add: columns_def map_of_eq_None_iff)
  with False show ?thesis by (auto simp: setitem_def map_add_def split: option.splits)
qed

lemma columns_replace:
  "map fst (map (\<lambda>(k, c'). if k = n then (k, c) else (k, c')) df) = map fst df"
  by (induction df) auto

lemma columns_setitem:
  "columns (setitem df n c) = (if n \<in> set (columns df) then columns df else columns df @ [n])"
  using columns_replace[of n c df] by (simp add: setitem_def columns_def del: map_map)

subsection \<open>The ideology derivation\<close>

lemma series_where_between:
  "series_where (Numeric vs) (map (in_range lo hi) vs) =
     Numeric (map (\<lambda>v. if in_range lo hi v then v else None) vs)"
  by (simp add: zip_map2 zip_same_conv_map comp_def)

lemma engineer_ideology_absent:
  "''P5328'' \<notin> set (columns (objs h r)) \<Longrightarrow>
     engineer_ideology h r =
       (h\<lparr>objs := (objs h)(nxt h := objs h r), nxt := Suc (nxt h)\<rparr>, Inr (nxt h))"
  by (simp add: engineer_ideology_def copy_df_def)

lemma engineer_ideology_numeric:
  assumes "map_of (objs h r) ''P5328'' = Some (Numeric vs)"
    and "map_of (objs h r) ''WEIGHT'' = Some w"
  shows "engineer_ideology h r =
       (h\<lparr>objs := (objs h)(nxt h :=
            setitem (setitem (objs h r) ''ideology_group'' (Categorical (map ideology_group_of vs)))
              ''ideology_score'' (Numeric (map ideology_score_of vs))),
          nxt := Suc (nxt h)\<rparr>, Inr (nxt h))"
  using assms in_columns[OF assms(1)]
  by (simp add: engineer_ideology_def copy_df_def setitem_at_def getitem_def map_of_setitem
      series_where_between ideology_score_of_def[abs_def] del: series_where.simps)

lemma engineer_ideology_success:
  assumes "engineer_ideology h r = (h', Inr r')"
  shows "''P5328'' \<notin> set (columns (objs h r)) \<or>
         (\<exists>vs w. map_of (objs h r) ''P5328'' = Some (Numeric vs) \<and>
                 map_of (objs h r) ''WEIGHT'' = Some w)"
  using assms
  by (auto simp: engineer_ideology_def copy_df_def setitem_at_def getitem_def map_of_setitem
      Let_def split: if_splits option.splits sum.splits column.splits elim!: pd_cut.elims)

lemma setitem_fixed:
  assumes "n \<in> set (columns df)" and "\<forall>(k, c') \<in> set df. k = n \<longrightarrow> c' = c"
  shows "setitem df n c = df"
proof -
  have "map (\<lambda>(k, c'). if k = n then (k, c) else (k, c')) df = df"
    using assms(2) by (intro map_idI) auto
  with assms(1) show ?thesis by (simp add: setitem_def)
qed

lemma setitem_entries: "\<forall>(k, c') \<in> set (setitem df n c). k = n \<longrightarrow> c' = c"
  by (auto simp: setitem_def columns_def split: if_splits intro: rev_image_eqI)

lemma setitem_entries_other:
  "n \<noteq> m \<Longrightarrow> \<forall>(k, c') \<in> set df. k = m \<longrightarrow> c' = d \<Longrightarrow>
     \<forall>(k, c') \<in> set (setitem df n c). k = m \<longrightarrow> c' = d"
  by (auto simp: setitem_def split: if_splits)

lemma setitem_twice:
  assumes "g \<noteq> s"
  shows "setitem (setitem (setitem (setitem df g G) s S) g G) s S = setitem (setitem df g G) s S"
proof -
  let ?d = "setitem (setitem df g G) s S"
  have "g \<in> set (columns ?d)" by (simp add: columns_setitem)
  moreover have "\<forall>(k, c') \<in> set ?d. k = g \<longrightarrow> c' = G"
    using assms by (intro setitem_entries_other setitem_entries) auto
  ultimately have "setitem ?d g G = ?d" by (rule setitem_fixed)
  moreover have "setitem ?d s S = ?d"
    by (rule setitem_fixed) (simp add: columns_setitem, rule setitem_entries)
  ultimately show ?thesis by simp
qed

text \<open>
  C9. The ideology derivation is idempotent: applied to the table it returned, it
  succeeds again and returns a table equal to the first one, in particular with the
  same ideology group and cleaned score columns. The placement column is the one of
  the input, and both derived columns are functions of the placement column alone,
  never of a column derived earlier.
\<close>

theorem engineer_ideology_idempotent:
  assumes "engineer_ideology h r = (h1, Inr r1)"
  shows "\<exists>h2 r2. engineer_ideology h1 r1 = (h2, Inr r2) \<and>
           objs h2 r2 = objs h1 r1 \<and>
           map_of (objs h2 r2) ''ideology_group'' = map_of (objs h1 r1) ''ideology_group'' \<and>
           map_of (objs h2 r2) ''ideology_score'' = map_of (objs h1 r1) ''ideology_score'' \<and>
           map_of (objs h1 r1) ''P5328'' = map_of (objs h r) ''P5328'' \<and>
           (\<forall>vs. map_of (objs h r) ''P5328'' = Some (Numeric vs) \<longrightarrow>
              map_of (objs h1 r1) ''ideology_group'' = Some (Categorical (map ideology_group_of vs)) \<and>
              map_of (objs h1 r1) ''ideology_score'' = Some (Numeric (map ideology_score_of vs)))"
proof -
  from engineer_ideology_success[OF assms]
  consider (absent) "''P5328'' \<notin> set (columns (objs h r))"
    | (numeric) vs w where "map_of (objs h r) ''P5328'' = Some (Numeric vs)"
        "map_of (objs h r) ''WEIGHT'' = Some w"
    by blast
  then show ?thesis
  proof cases
    case absent
    then have none: "map_of (objs h r) ''P5328'' = None"
      by (simp add: columns_def map_of_eq_None_iff)
    from assms have "(h1, Inr r1 :: error + nat) =
        (h\<lparr>objs := (objs h)(nxt h := objs h r), nxt := Suc (nxt h)\<rparr>, Inr (nxt h))"
      by (simp only: engineer_ideology_absent[OF absent])
    then have h1: "h1 = h\<lparr>objs := (objs h)(nxt h := objs h r), nxt := Suc (nxt h)\<rparr>"
        "r1 = nxt h"
      by simp_all
    then have same: "objs h1 r1 = objs h r" by simp
    with absent have "''P5328'' \<notin> set (columns (objs h1 r1))" by simp
    from engineer_ideology_absent[OF this] same none show ?thesis by simp
  next
    case numeric
    let ?G = "Categorical (map ideology_group_of vs)"
    let ?S = "Numeric (map ideology_score_of vs)"
    let ?d = "setitem (setitem (objs h r) ''ideology_group'' ?G) ''ideology_score'' ?S"
    from assms have "(h1, Inr r1 :: error + nat) =
        (h\<lparr>objs := (objs h)(nxt h := ?d), nxt := Suc (nxt h)\<rparr>, Inr (nxt h))"
      by (simp only: engineer_ideology_numeric[OF numeric])
    then have h1: "h1 = h\<lparr>objs := (objs h)(nxt h := ?d), nxt := Suc (nxt h)\<rparr>" "r1 = nxt h"
      by simp_all
    then have d: "objs h1 r1 = ?d" by simp
    have p: "map_of (objs h1 r1) ''P5328'' = Some (Numeric vs)"
      and w: "map_of (objs h1 r1) ''WEIGHT'' = Some w"
      using numeric by (simp_all add: d map_of_setitem)
    have twice: "setitem (setitem ?d ''ideology_group'' ?G) ''ideology_score'' ?S = ?d"
      by (rule setitem_twice) simp
    from engineer_ideology_numeric[OF p w] twice numeric show ?thesis
      by (simp add: d map_of_setitem)
  qed
qed


lemma derive_from_numeric:
  assumes "map_of df ''P5328'' = Some (Numeric vs)" and "map_of df ''WEIGHT'' = Some w"
  shows "derive_from df =
     Inr (setitem (setitem df ''ideology_group'' (Categorical (map ideology_group_of vs)))
            ''ideology_score'' (Numeric (map ideology_score_of vs)))"
  using engineer_ideology_numeric[of "heap_of df" 0 vs w] assms
  by (simp add: derive_from_def heap_of_def)

text \<open>
  C4, as the code has it. The derived ideology group of a placement of 3.5 is
  "Izquierda" (the bins are closed on the right, so the edge belongs to the lower
  bucket); 3.5001 gives "Centro", 6.5 gives "Centro", 7 gives "Derecha", and a
  placement of 11 or a missing placement gives no group.
\<close>

theorem ideology_boundaries:
  "ideology_group_of (Some 3.5) = Some ''Izquierda'' \<and>
   ideology_group_of (Some 3.5001) = Some ''Centro'' \<and>
   ideology_group_of (Some 6.5) = Some ''Centro'' \<and>
   ideology_group_of (Some 7) = Some ''Derecha'' \<and>
   ideology_group_of (Some 11) = None \<and>
   ideology_group_of None = None \<and>
   derive_from placement_table =
     Inr (placement_table @
       [(''ideology_group'',
           Categorical [Some ''Izquierda'', Some ''Centro'', Some ''Centro'', Some ''Derecha'',
             None, None]),
        (''ideology_score'', Numeric [Some 3.5, Some 3.5001, Some 6.5, Some 7, None, None])])"
proof -
  have "derive_from placement_table =
     Inr (placement_table @
       [(''ideology_group'',
           Categorical [Some ''Izquierda'', Some ''Centro'', Some ''Centro'', Some ''Derecha'',
             None, None]),
        (''ideology_score'', Numeric [Some 3.5, Some 3.5001, Some 6.5, Some 7, None, None])])"
    using derive_from_numeric[of placement_table
        "[Some 3.5, Some 3.5001, Some 6.5, Some 7, Some 11, None]"
        "Numeric [Some 1, Some 1, Some 1, Some 1, Some 1, Some 1]"]
    by (simp add: placement_table_def setitem_def columns_def cut_cell_def
        ideology_score_of_def in_range_def)
  then show ?thesis by (simp add: cut_cell_def)
qed

text \<open>The claim as written asks for "Centro" at 3.5; the code answers "Izquierda".\<close>

theorem ideology_boundary_counterexample:
  "ideology_group_of (Some 3.5) \<noteq> Some ''Centro'' \<and>
   derive_from boundary_table =
     Inr (boundary_table @
       [(''ideology_group'', Categorical [Some ''Izquierda'']),
        (''ideology_score'', Numeric [Some 3.5])])"
  using derive_from_numeric[of boundary_table "[Some 3.5]" "Numeric [Some 1]"]
  by (simp add: boundary_table_def setitem_def columns_def cut_cell_def
      ideology_score_of_def in_range_def)

text \<open>
  C5, as the code has it. For every table and every record, the derived ideology group
  is absent exactly when the placement is missing, is at most 0 or is above 10: such a
  value is never given one of the three buckets.
\<close>

theorem ideology_group_absent:
  assumes "engineer_ideology h r = (h', Inr r')"
    and "map_of (objs h r) ''P5328'' = Some (Numeric vs)"
  shows "\<exists>gs. map_of (objs h' r') ''ideology_group'' = Some (Categorical gs) \<and>
           length gs = length vs \<and>
           (\<forall>i < length vs.
              gs ! i = None \<longleftrightarrow> (case vs ! i of None \<Rightarrow> True | Some x \<Rightarrow> x \<le> 0 \<or> 10 < x))"
proof -
  from engineer_ideology_success[OF assms(1)] assms(2) in_columns[OF assms(2)]
  obtain w where w: "map_of (objs h r) ''WEIGHT'' = Some w" by auto
  let ?d = "setitem (setitem (objs h r) ''ideology_group'' (Categorical (map ideology_group_of vs)))
        ''ideology_score'' (Numeric (map ideology_score_of vs))"
  from assms(1) have "(h', Inr r' :: error + nat) =
      (h\<lparr>objs := (objs h)(nxt h := ?d), nxt := Suc (nxt h)\<rparr>, Inr (nxt h))"
    by (simp only: engineer_ideology_numeric[OF assms(2) w])
  then have "h' = h\<lparr>objs := (objs h)(nxt h := ?d), nxt := Suc (nxt h)\<rparr>" "r' = nxt h"
    by simp_all
  then have "map_of (objs h' r') ''ideology_group'' = Some (Categorical (map ideology_group_of vs))"
    by (simp add: map_of_setitem)
  moreover have "\<forall>i < length vs. map ideology_group_of vs ! i = None \<longleftrightarrow>
      (case vs ! i of None \<Rightarrow> True | Some x \<Rightarrow> x \<le> 0 \<or> 10 < x)"
  proof (intro allI impI)
    fix i assume "i < length vs"
    then show "map ideology_group_of vs ! i = None \<longleftrightarrow>
      (case vs ! i of None \<Rightarrow> True | Some x \<Rightarrow> x \<le> 0 \<or> 10 < x)"
      by (cases "vs ! i") (auto simp: cut_cell_def)
  qed
  ultimately show ?thesis by simp
qed

text \<open>
  The claim as written covers every value outside the range from 1 to 10; a placement
  of 0.5 lies outside it and is still given the bucket "Izquierda", while its cleaned
  score is missing.
\<close>

theorem ideology_group_fraction_counterexample:
  "\<not> in_range 1 10 (Some 0.5) \<and>
   ideology_group_of (Some 0.5) = Some ''Izquierda'' \<and>
   derive_from fraction_table =
     Inr (fraction_table @
       [(''ideology_group'', Categorical [Some ''Izquierda'']),
        (''ideology_score'', Numeric [None])])"
  using derive_from_numeric[of fraction_table "[Some 0.5]" "Numeric [Some 1]"]
  by (simp add: fraction_table_def setitem_def columns_def cut_cell_def
      ideology_score_of_def in_range_def)

lemma placement_run:
  "\<exists>h'. engineer_ideology (heap_of placement_table) 0 = (h', Inr 1)"
  using engineer_ideology_numeric[of "heap_of placement_table" 0
      "[Some 3.5, Some 3.5001, Some 6.5, Some 7, Some 11, None]"
      "Numeric [Some 1, Some 1, Some 1, Some 1, Some 1, Some 1]"]
  by (simp add: heap_of_def placement_table_def)

theorem ideology_group_absent_witness:
  "\<exists>h' gs. engineer_ideology (heap_of placement_table) 0 = (h', Inr 1) \<and>
     map_of (objs h' 1) ''ideology_group'' = Some (Categorical gs) \<and>
     length gs = 6 \<and> gs ! 4 = None \<and> gs ! 5 = None \<and> gs ! 0 \<noteq> None"
proof -
  from placement_run obtain h' where
    run: "engineer_ideology (heap_of placement_table) 0 = (h', Inr 1)" ..
  have p: "map_of (objs (heap_of placement_table) 0) ''P5328'' =
      Some (Numeric [Some 3.5, Some 3.5001, Some 6.5, Some 7, Some 11, None])"
    by (simp add: heap_of_def placement_table_def)
  from ideology_group_absent[OF run p] obtain gs where
    gs: "map_of (objs h' 1) ''ideology_group'' = Some (Categorical gs)" "length gs = 6"
    and iff: "\<forall>i < 6. gs ! i = None \<longleftrightarrow>
       (case [Some 3.5, Some 3.5001, Some 6.5, Some 7, Some 11, None :: real option] ! i of
          None \<Rightarrow> True | Some x \<Rightarrow> x \<le> 0 \<or> 10 < x)"
    by auto
  from iff have "gs ! 4 = None" "gs ! 5 = None" "gs ! 0 \<noteq> None" by simp_all
  with run gs show ?thesis by blast
qed

theorem engineer_ideology_idempotent_witness:
  "\<exists>h1 h2 r2. engineer_ideology (heap_of placement_table) 0 = (h1, Inr 1) \<and>
     engineer_ideology h1 1 = (h2, Inr r2) \<and> objs h2 r2 = objs h1 1"
proof -
  from placement_run obtain h1 where
    run: "engineer_ideology (heap_of placement_table) 0 = (h1, Inr 1)" ..
  from engineer_ideology_idempotent[OF run] run show ?thesis by blast
qed


subsection \<open>Tables without weight\<close>

text \<open>
  C3. On a table whose weights are all 0 the weighted percentage, the weighted mean
  and the grouped indicator return 0, but the weighted category distribution divides
  by the zero total and every percentage it produces is \<open>NaN\<close>.
\<close>

theorem zero_total_weight_nan:
  "plot_weighted_bar zero_weight_table ''P6933'' global_participacion =
     Inr [(Some ''Si voto'', NaN), (Some ''No voto'', NaN)] \<and>
   porcentaje_ponderado zero_weight_table ''P6933'' 1 = Inr 0 \<and>
   weighted_mean zero_weight_table ''P6933'' = Inr 0 \<and>
   plot_grouped_reasons zero_weight_table [(''Votacion'', [''P6933''])] = Inr [(''Votacion'', 0)]"
  by (simp add: plot_weighted_bar_def groupby_weight_sum_def getitem_def zero_weight_table_def
      present_codes_def select_def nansum_def cell_def fdiv_def global_participacion_def
      porcentaje_ponderado_def yes_weight_def total_weight_def columns_def weighted_mean_def
      in_range_def plot_grouped_reasons_def)

subsection \<open>Weighted category distribution\<close>










subsection \<open>Grouped indicators\<close>














end
